theory Spec2Isabelle
  imports Complex_Main "HOL-Library.AList"
begin

section \<open>Data model of the dispatcher (src/index.ts, lines 7--45)\<close>

text \<open>
  Numbers. A coordinate of a payload is a \<^typ>\<open>real\<close>: the value of the
  double that the payload carries. A timestamp (\<open>Date.now()\<close>, milliseconds) is
  an \<^typ>\<open>int\<close> and the candidate cursor a \<^typ>\<open>nat\<close>. A distance is a
  double computed by the runtime in rounded arithmetic, possibly \<open>NaN\<close>; its
  type is the parameter \<open>'n\<close>, and the arithmetic, the \<open>Math\<close> functions
  and \<open>Array.prototype.sort\<close> are the fields of a runtime record that the
  handlers take as an argument. Nothing is assumed of them.

  The two \<open>Map\<close> objects of the source keep insertion order and \<open>set\<close> on an
  existing key overwrites the value in place; they are association lists with
  \<^const>\<open>AList.update\<close> for \<open>set\<close> and \<^const>\<open>map_of\<close> for \<open>get\<close>.

  Every handler runs to completion on the state it is given (the source is
  single-threaded; interleaving at \<open>await\<close> points is not modelled). \<open>sendDM\<close>
  catches its own failures and every caller discards its result, so an outbound
  message is recorded as a send attempt: a pair of the recipient and the message.
\<close>

definition DISPATCH_INTERVAL_MS :: int where
  "DISPATCH_INTERVAL_MS = 30 * 1000"

datatype availability = AVAILABLE | UNAVAILABLE

datatype worker_type = DRIVERS | LIVREURS

datatype request_type = RIDE | DELIVERY

datatype request_status = PENDING | ASSIGNED

record coords =
  latitude :: real
  longitude :: real

record DriverState =
  d_status :: availability
  location :: "coords option"
  lastSeen :: int
  d_type :: worker_type
  d_did :: string

record 'n Candidate =
  did :: string
  distance :: 'n

text \<open>The runtime: the double of a number, the arithmetic of doubles, the
  \<open>Math\<close> functions that \<open>getDistance\<close> calls, the comparison \<open><=\<close> of
  doubles, and \<open>Array.prototype.sort\<close> with a comparator, on candidate
  lists.\<close>

record 'n runtime =
  js_num :: "real \<Rightarrow> 'n"
  js_add :: "'n \<Rightarrow> 'n \<Rightarrow> 'n"
  js_sub :: "'n \<Rightarrow> 'n \<Rightarrow> 'n"
  js_mul :: "'n \<Rightarrow> 'n \<Rightarrow> 'n"
  js_div :: "'n \<Rightarrow> 'n \<Rightarrow> 'n"
  Math_sin :: "'n \<Rightarrow> 'n"
  Math_cos :: "'n \<Rightarrow> 'n"
  Math_sqrt :: "'n \<Rightarrow> 'n"
  Math_atan2 :: "'n \<Rightarrow> 'n \<Rightarrow> 'n"
  Math_PI :: 'n
  js_le :: "'n \<Rightarrow> 'n \<Rightarrow> bool"
  Array_sort ::
    "('n Candidate \<Rightarrow> 'n Candidate \<Rightarrow> 'n) \<Rightarrow> 'n Candidate list \<Rightarrow> 'n Candidate list"

text \<open>The inbound payloads (\<open>any\<close> in the source), one record per event kind,
  with the fields the handlers read.\<close>

record availability_payload =
  a_status :: availability
  a_location :: "coords option"

record request_payload =
  ptype :: string
  orderId :: string
  pickup :: "coords option"
  deliveryLocation :: "coords option"

record accept_payload =
  acc_orderId :: string

record 'n ActiveRequest =
  r_id :: string
  r_type :: request_type
  r_status :: request_status
  customerDid :: string
  candidates :: "'n Candidate list"
  nextCandidateIndex :: nat
  notifiedDrivers :: "string list"
  data :: request_payload
  timestamp :: int
  lastNotificationTime :: int

text \<open>The outbound messages, one constructor per \<open>type\<close> tag. An offer is the
  stored payload with its \<open>type\<close> field overwritten by the offer tag.\<close>

datatype message =
    NO_DRIVERS_AVAILABLE string
  | OFFER request_payload
  | ORDER_ASSIGNED string string "coords option"
  | ORDER_TAKEN_BY_OTHER string
  | ORDER_CONFIRMED string string request_payload
  | ORDER_ALREADY_TAKEN string

type_synonym outbox = "(string \<times> message) list"

record 'n state =
  drivers :: "(string \<times> DriverState) list"
  activeRequests :: "(string \<times> 'n ActiveRequest) list"
  validDrivers :: "string set"
  validLivreurs :: "string set"

section \<open>Helpers\<close>

text \<open>\<open>getDistance\<close> (lines 54--67), operation by operation in the arithmetic of
  the runtime.\<close>

definition getDistance :: "'n runtime \<Rightarrow> real \<Rightarrow> real \<Rightarrow> real \<Rightarrow> real \<Rightarrow> 'n" where
  "getDistance M lat1 lon1 lat2 lon2 =
     (let R = js_num M 6371000;
          phi1 = js_div M (js_mul M (js_num M lat1) (Math_PI M)) (js_num M 180);
          phi2 = js_div M (js_mul M (js_num M lat2) (Math_PI M)) (js_num M 180);
          dphi = js_div M (js_mul M (js_sub M (js_num M lat2) (js_num M lat1)) (Math_PI M))
                   (js_num M 180);
          dlambda = js_div M (js_mul M (js_sub M (js_num M lon2) (js_num M lon1)) (Math_PI M))
                      (js_num M 180);
          a = js_add M
                (js_mul M (Math_sin M (js_div M dphi (js_num M 2)))
                          (Math_sin M (js_div M dphi (js_num M 2))))
                (js_mul M
                   (js_mul M
                      (js_mul M (Math_cos M phi1) (Math_cos M phi2))
                      (Math_sin M (js_div M dlambda (js_num M 2))))
                   (Math_sin M (js_div M dlambda (js_num M 2))));
          c = js_mul M (js_num M 2)
                (Math_atan2 M (Math_sqrt M a) (Math_sqrt M (js_sub M (js_num M 1) a)))
      in js_mul M R c)"

section \<open>Handlers\<close>

text \<open>\<open>handleDriverAvailability\<close> (lines 123--142); \<open>now\<close> is \<open>Date.now()\<close>.\<close>

definition handleDriverAvailability ::
  "int \<Rightarrow> string \<Rightarrow> availability_payload \<Rightarrow> 'n state \<Rightarrow> 'n state" where
  "handleDriverAvailability now senderDid payload st =
     (let ty = (if senderDid \<in> validDrivers st then Some DRIVERS
                else if senderDid \<in> validLivreurs st then Some LIVREURS
                else None)
      in case ty of
           None \<Rightarrow> st
         | Some t \<Rightarrow>
             st\<lparr>drivers :=
                  AList.update senderDid
                    \<lparr>d_status = a_status payload,
                     location = a_location payload,
                     lastSeen = now,
                     d_type = t,
                     d_did = senderDid\<rparr>
                    (drivers st)\<rparr>)"

text \<open>JavaScript's \<open>a || b\<close> and \<open>!a\<close> on a value that is a number or
  \<open>undefined\<close> (\<open>None\<close>): \<open>undefined\<close> and \<open>0\<close> are falsy.\<close>

definition falsy :: "real option \<Rightarrow> bool" where
  "falsy v = (case v of None \<Rightarrow> True | Some x \<Rightarrow> x = 0)"

definition js_or :: "real option \<Rightarrow> real option \<Rightarrow> real option" where
  "js_or a b = (if falsy a then b else a)"

text \<open>Lines 153--154: \<open>payload.pickup?.latitude || payload.deliveryLocation?.latitude\<close>.\<close>

definition reqLat :: "request_payload \<Rightarrow> real option" where
  "reqLat payload =
     js_or (map_option latitude (pickup payload))
           (map_option latitude (deliveryLocation payload))"

definition reqLon :: "request_payload \<Rightarrow> real option" where
  "reqLon payload =
     js_or (map_option longitude (pickup payload))
           (map_option longitude (deliveryLocation payload))"

text \<open>Lines 161--167. The \<open>filter\<close> and the \<open>map\<close> are fused: the mapped
  function reads \<open>d.location!\<close>, which exists exactly on the records the filter
  keeps. The sort is the one of the runtime, with the comparator
  \<open>(a, b) => a.distance - b.distance\<close>.\<close>

definition candidateOf ::
  "'n runtime \<Rightarrow> real \<Rightarrow> real \<Rightarrow> worker_type \<Rightarrow> DriverState \<Rightarrow> 'n Candidate option" where
  "candidateOf M lat lon reqType d =
     (if d_type d = reqType \<and> d_status d = AVAILABLE
      then (case location d of
              None \<Rightarrow> None
            | Some l \<Rightarrow>
                Some \<lparr>did = d_did d,
                      distance = getDistance M lat lon (latitude l) (longitude l)\<rparr>)
      else None)"

definition computeCandidates ::
  "'n runtime \<Rightarrow> real \<Rightarrow> real \<Rightarrow> worker_type \<Rightarrow> (string \<times> DriverState) list
     \<Rightarrow> 'n Candidate list" where
  "computeCandidates M lat lon reqType ds =
     Array_sort M (\<lambda>a b. js_sub M (distance a) (distance b))
       (List.map_filter (candidateOf M lat lon reqType) (map snd ds))"

text \<open>\<open>handleRequest\<close> (lines 144--190).\<close>

definition handleRequest ::
  "'n runtime \<Rightarrow> int \<Rightarrow> string \<Rightarrow> request_payload \<Rightarrow> 'n state \<Rightarrow> 'n state \<times> outbox" where
  "handleRequest M now senderDid payload st =
     (let isDelivery = (ptype payload = ''DELIVERY_REQUEST'');
          reqType = (if isDelivery then LIVREURS else DRIVERS);
          reqId = orderId payload
      in if falsy (reqLat payload) \<or> falsy (reqLon payload) then (st, [])
         else case (reqLat payload, reqLon payload) of
           (Some lat, Some lon) \<Rightarrow>
             (let cands = computeCandidates M lat lon reqType (drivers st)
              in if length cands = 0
                 then (st, [(senderDid, NO_DRIVERS_AVAILABLE reqId)])
                 else
                   (st\<lparr>activeRequests :=
                         AList.update reqId
                           \<lparr>r_id = reqId,
                            r_type = (if isDelivery then DELIVERY else RIDE),
                            r_status = PENDING,
                            customerDid = senderDid,
                            candidates = cands,
                            nextCandidateIndex = 0,
                            notifiedDrivers = [],
                            data = payload,
                            timestamp = now,
                            lastNotificationTime = 0\<rparr>
                           (activeRequests st)\<rparr>,
                    []))
         | _ \<Rightarrow> (st, []))"

text \<open>The body of the loop of \<open>processRequests\<close> (lines 196--230) for one
  stored request: the request as mutated, and what was sent.\<close>

definition processRequest ::
  "int \<Rightarrow> (string \<times> DriverState) list \<Rightarrow> 'n ActiveRequest \<Rightarrow> 'n ActiveRequest \<times> outbox" where
  "processRequest now ds req =
     (if r_status req \<noteq> PENDING then (req, [])
      else if now - lastNotificationTime req \<ge> DISPATCH_INTERVAL_MS then
        (if nextCandidateIndex req < length (candidates req) then
           (let candidate = candidates req ! nextCandidateIndex req;
                skip = (req\<lparr>nextCandidateIndex := nextCandidateIndex req + 1\<rparr>, [])
            in case map_of ds (did candidate) of
                 Some driverState \<Rightarrow>
                   if d_status driverState = AVAILABLE then
                     (let requestMsg =
                            (data req)\<lparr>ptype :=
                               (if r_type req = DELIVERY then ''DELIVERY_OFFER''
                                else ''RIDE_OFFER'')\<rparr>
                      in (req\<lparr>notifiedDrivers := notifiedDrivers req @ [did candidate],
                              lastNotificationTime := now,
                              nextCandidateIndex := nextCandidateIndex req + 1\<rparr>,
                          [(did candidate, OFFER requestMsg)]))
                   else skip
               | None \<Rightarrow> skip)
         else (req, []))
      else (req, []))"

text \<open>The loop over \<open>activeRequests.entries()\<close>, in insertion order.\<close>

fun processEntries ::
  "int \<Rightarrow> (string \<times> DriverState) list \<Rightarrow> (string \<times> 'n ActiveRequest) list
     \<Rightarrow> (string \<times> 'n ActiveRequest) list \<times> outbox" where
  "processEntries now ds [] = ([], [])"
| "processEntries now ds ((reqId, req) # rest) =
     (let (req', out) = processRequest now ds req;
          (rest', outs) = processEntries now ds rest
      in ((reqId, req') # rest', out @ outs))"

definition processRequests :: "int \<Rightarrow> 'n state \<Rightarrow> 'n state \<times> outbox" where
  "processRequests now st =
     (let (reqs, out) = processEntries now (drivers st) (activeRequests st)
      in (st\<lparr>activeRequests := reqs\<rparr>, out))"

text \<open>\<open>handleAccept\<close> (lines 234--280).\<close>

definition handleAccept ::
  "string \<Rightarrow> accept_payload \<Rightarrow> 'n state \<Rightarrow> 'n state \<times> outbox" where
  "handleAccept senderDid payload st =
     (let reqId = acc_orderId payload
      in case map_of (activeRequests st) reqId of
           None \<Rightarrow> (st, [])
         | Some req \<Rightarrow>
             if r_status req \<noteq> PENDING
             then (st, [(senderDid, ORDER_ALREADY_TAKEN reqId)])
             else
               (let driverInfo = map_of (drivers st) senderDid;
                    others = filter (\<lambda>d. d \<noteq> senderDid) (notifiedDrivers req)
                in (st\<lparr>activeRequests :=
                         AList.update reqId (req\<lparr>r_status := ASSIGNED\<rparr>) (activeRequests st)\<rparr>,
                    [(customerDid req,
                      ORDER_ASSIGNED reqId senderDid
                        (case driverInfo of None \<Rightarrow> None | Some d \<Rightarrow> location d))]
                    @ map (\<lambda>otherDid. (otherDid, ORDER_TAKEN_BY_OTHER reqId)) others
                    @ [(senderDid, ORDER_CONFIRMED reqId (customerDid req) (data req))])))"

section \<open>Properties of a stored request\<close>

text \<open>The cursor is within the candidate list, and every notified worker is a
  candidate before the cursor.\<close>

definition req_bounds :: "'n ActiveRequest \<Rightarrow> bool" where
  "req_bounds r \<longleftrightarrow>
     nextCandidateIndex r \<le> length (candidates r)
     \<and> set (notifiedDrivers r) \<subseteq> did ` set (take (nextCandidateIndex r) (candidates r))"

text \<open>The candidates are in ascending distance, by the \<open><=\<close> of the runtime, and
  the request is within its bounds.\<close>

definition req_inv :: "'n runtime \<Rightarrow> 'n ActiveRequest \<Rightarrow> bool" where
  "req_inv M r \<longleftrightarrow>
     sorted_wrt (js_le M) (map distance (candidates r)) \<and> req_bounds r"

text \<open>What relates a stored request \<open>r\<close> to the same request \<open>r'\<close> later: the
  candidates are the same, the cursor and the last offer time have not
  decreased, and an assigned request is still assigned.\<close>

definition req_step :: "'n ActiveRequest \<Rightarrow> 'n ActiveRequest \<Rightarrow> bool" where
  "req_step r r' \<longleftrightarrow>
     candidates r' = candidates r
     \<and> nextCandidateIndex r \<le> nextCandidateIndex r'
     \<and> (r_status r = ASSIGNED \<longrightarrow> r_status r' = ASSIGNED)
     \<and> lastNotificationTime r \<le> lastNotificationTime r'"

section \<open>An example runtime and example states\<close>

text \<open>A runtime that computes without rounding: a number is a real or \<open>NaN\<close>,
  the operations are the exact ones, a division by zero and the square root of
  a negative number give \<open>NaN\<close>, and the sort is a stable insertion sort that
  puts \<open>a\<close> after \<open>b\<close> when the comparator is positive on \<open>(a, b)\<close>. It is used
  in the examples only, where every distance is the one of a point from itself:
  \<open>0\<close>, as in doubles.\<close>

datatype jsnum = Num real | NaN

definition lift1 :: "(real \<Rightarrow> real) \<Rightarrow> jsnum \<Rightarrow> jsnum" where
  "lift1 f a = (case a of Num x \<Rightarrow> Num (f x) | NaN \<Rightarrow> NaN)"

definition lift2 :: "(real \<Rightarrow> real \<Rightarrow> real) \<Rightarrow> jsnum \<Rightarrow> jsnum \<Rightarrow> jsnum" where
  "lift2 f a b =
     (case a of
        Num x \<Rightarrow> (case b of Num y \<Rightarrow> Num (f x y) | NaN \<Rightarrow> NaN)
      | NaN \<Rightarrow> NaN)"

definition exact_div :: "jsnum \<Rightarrow> jsnum \<Rightarrow> jsnum" where
  "exact_div a b =
     (case a of
        Num x \<Rightarrow> (case b of Num y \<Rightarrow> (if y = 0 then NaN else Num (x / y)) | NaN \<Rightarrow> NaN)
      | NaN \<Rightarrow> NaN)"

definition exact_sqrt :: "jsnum \<Rightarrow> jsnum" where
  "exact_sqrt a = (case a of Num x \<Rightarrow> (if x < 0 then NaN else Num (sqrt x)) | NaN \<Rightarrow> NaN)"

definition atan2 :: "real \<Rightarrow> real \<Rightarrow> real" where
  "atan2 y x =
     (if 0 < x then arctan (y / x)
      else if x < 0 then (if 0 \<le> y then arctan (y / x) + pi else arctan (y / x) - pi)
      else if 0 < y then pi / 2
      else if y < 0 then - (pi / 2)
      else 0)"

definition exact_le :: "jsnum \<Rightarrow> jsnum \<Rightarrow> bool" where
  "exact_le a b =
     (case a of
        Num x \<Rightarrow> (case b of Num y \<Rightarrow> x \<le> y | NaN \<Rightarrow> False)
      | NaN \<Rightarrow> False)"

definition positive :: "jsnum \<Rightarrow> bool" where
  "positive v = (case v of Num x \<Rightarrow> 0 < x | NaN \<Rightarrow> False)"

fun insert_by :: "('a \<Rightarrow> 'a \<Rightarrow> jsnum) \<Rightarrow> 'a \<Rightarrow> 'a list \<Rightarrow> 'a list" where
  "insert_by cmp x [] = [x]"
| "insert_by cmp x (y # ys) =
     (if positive (cmp x y) then y # insert_by cmp x ys else x # y # ys)"

definition exact_sort :: "('a \<Rightarrow> 'a \<Rightarrow> jsnum) \<Rightarrow> 'a list \<Rightarrow> 'a list" where
  "exact_sort cmp xs = foldr (insert_by cmp) xs []"

definition exact_runtime :: "jsnum runtime" where
  "exact_runtime =
     \<lparr>js_num = Num,
      js_add = lift2 (+),
      js_sub = lift2 (-),
      js_mul = lift2 (*),
      js_div = exact_div,
      Math_sin = lift1 sin,
      Math_cos = lift1 cos,
      Math_sqrt = exact_sqrt,
      Math_atan2 = lift2 atan2,
      Math_PI = Num pi,
      js_le = exact_le,
      Array_sort = exact_sort\<rparr>"

definition ex_payload :: "string \<Rightarrow> request_payload" where
  "ex_payload oid =
     \<lparr>ptype = ''RIDE_REQUEST'', orderId = oid,
      pickup = Some \<lparr>latitude = 1, longitude = 1\<rparr>, deliveryLocation = None\<rparr>"

definition ex_driver :: "string \<Rightarrow> availability \<Rightarrow> DriverState" where
  "ex_driver w s =
     \<lparr>d_status = s, location = Some \<lparr>latitude = 1, longitude = 1\<rparr>,
      lastSeen = 0, d_type = DRIVERS, d_did = w\<rparr>"

definition ex_drivers :: "(string \<times> DriverState) list" where
  "ex_drivers =
     [(''c1'', ex_driver ''c1'' AVAILABLE),
      (''c2'', ex_driver ''c2'' UNAVAILABLE),
      (''c3'', ex_driver ''c3'' AVAILABLE)]"

definition ex_candidates :: "jsnum Candidate list" where
  "ex_candidates =
     [\<lparr>did = ''c1'', distance = Num 0\<rparr>,
      \<lparr>did = ''c2'', distance = Num 0\<rparr>,
      \<lparr>did = ''c3'', distance = Num 0\<rparr>]"

definition ex_request ::
  "request_status \<Rightarrow> nat \<Rightarrow> string list \<Rightarrow> int \<Rightarrow> jsnum ActiveRequest" where
  "ex_request s i notified lastOffer =
     \<lparr>r_id = ''o1'', r_type = RIDE, r_status = s, customerDid = ''cust'',
      candidates = ex_candidates, nextCandidateIndex = i, notifiedDrivers = notified,
      data = ex_payload ''o1'', timestamp = 1000, lastNotificationTime = lastOffer\<rparr>"

definition ex_state :: "(string \<times> jsnum ActiveRequest) list \<Rightarrow> jsnum state" where
  "ex_state reqs =
     \<lparr>drivers = ex_drivers, activeRequests = reqs,
      validDrivers = {''c1'', ''c2'', ''c3''}, validLivreurs = {''c1''}\<rparr>"

section \<open>Facts about the example runtime and states\<close>

lemma getDistance_same: "getDistance exact_runtime lat lon lat lon = Num 0"
  by (simp add: getDistance_def exact_runtime_def lift1_def lift2_def exact_div_def
        exact_sqrt_def atan2_def)

lemma ex_drivers_of [simp]: "drivers (ex_state xs) = ex_drivers"
  and ex_requests_of [simp]: "activeRequests (ex_state xs) = xs"
  by (simp_all add: ex_state_def)

lemma ex_req_inv:
  "req_inv exact_runtime (ex_request s 0 [] l)"
  "req_inv exact_runtime (ex_request s 1 [''c1''] l)"
  by (simp_all add: req_inv_def req_bounds_def ex_request_def ex_candidates_def
        exact_runtime_def exact_le_def)

lemma ex_computeCandidates:
  "computeCandidates exact_runtime 1 1 DRIVERS ex_drivers
     = [\<lparr>did = ''c1'', distance = Num 0\<rparr>, \<lparr>did = ''c3'', distance = Num 0\<rparr>]"
proof -
  have "List.map_filter (candidateOf exact_runtime 1 1 DRIVERS) (map snd ex_drivers)
          = [\<lparr>did = ''c1'', distance = Num 0\<rparr>, \<lparr>did = ''c3'', distance = Num 0\<rparr>]"
    by (simp add: ex_drivers_def ex_driver_def candidateOf_def List.map_filter_simps
          getDistance_same)
  then show ?thesis
    by (simp add: computeCandidates_def)
       (simp add: exact_runtime_def exact_sort_def lift2_def positive_def)
qed

lemma ex_reqLat: "reqLat (ex_payload oid) = Some 1" "reqLon (ex_payload oid) = Some 1"
  by (simp_all add: reqLat_def reqLon_def ex_payload_def js_or_def falsy_def)

section \<open>Availability updates\<close>

text \<open>
  C10. An availability update from a sender that is in both the authorized drivers
  set and the authorized livreurs set is stored with class \<open>DRIVERS\<close>. In general
  the stored class depends on the two memberships only, the drivers set first: a
  member of the drivers set is stored as \<open>DRIVERS\<close>, a member of the livreurs set
  alone as \<open>LIVREURS\<close>, and an update from a member of neither changes nothing.
\<close>

theorem availability_class_drivers_first:
  "(senderDid \<in> validDrivers st \<and> senderDid \<in> validLivreurs st \<longrightarrow>
      map_option d_type
        (map_of (drivers (handleDriverAvailability now senderDid payload st)) senderDid)
        = Some DRIVERS)
   \<and> (senderDid \<in> validDrivers st \<longrightarrow>
      map_option d_type
        (map_of (drivers (handleDriverAvailability now senderDid payload st)) senderDid)
        = Some DRIVERS)
   \<and> (senderDid \<notin> validDrivers st \<and> senderDid \<in> validLivreurs st \<longrightarrow>
      map_option d_type
        (map_of (drivers (handleDriverAvailability now senderDid payload st)) senderDid)
        = Some LIVREURS)
   \<and> (senderDid \<notin> validDrivers st \<and> senderDid \<notin> validLivreurs st \<longrightarrow>
      handleDriverAvailability now senderDid payload st = st)"
  by (simp add: handleDriverAvailability_def update_conv')

theorem availability_class_drivers_first_witness:
  "''c1'' \<in> validDrivers (ex_state []) \<and> ''c1'' \<in> validLivreurs (ex_state [])
   \<and> map_of (drivers (handleDriverAvailability 5 ''c1''
         \<lparr>a_status = AVAILABLE, a_location = None\<rparr> (ex_state []))) ''c1''
       = Some \<lparr>d_status = AVAILABLE, location = None, lastSeen = 5,
               d_type = DRIVERS, d_did = ''c1''\<rparr>"
  using availability_class_drivers_first
          [of "''c1''" "ex_state []" 5 "\<lparr>a_status = AVAILABLE, a_location = None\<rparr>"]
  by (simp add: ex_state_def handleDriverAvailability_def ex_drivers_def ex_driver_def)

section \<open>Request creation\<close>

text \<open>
  C9. A request whose resolved origin latitude or longitude is \<open>0\<close> is dropped:
  the state is unchanged and nothing is sent. A pickup latitude (longitude) of
  \<open>0\<close> makes the resolved latitude (longitude) the one of the legacy
  \<open>deliveryLocation\<close>; when there is no \<open>deliveryLocation\<close>, such a request is
  dropped as well.
\<close>

theorem zero_coordinate_dropped:
  "(reqLat payload = Some 0 \<or> reqLon payload = Some 0 \<longrightarrow>
      handleRequest M now senderDid payload st = (st, []))
   \<and> (map_option latitude (pickup payload) = Some 0 \<longrightarrow>
      reqLat payload = map_option latitude (deliveryLocation payload))
   \<and> (map_option longitude (pickup payload) = Some 0 \<longrightarrow>
      reqLon payload = map_option longitude (deliveryLocation payload))
   \<and> ((map_option latitude (pickup payload) = Some 0
         \<or> map_option longitude (pickup payload) = Some 0)
        \<and> deliveryLocation payload = None \<longrightarrow>
      handleRequest M now senderDid payload st = (st, []))"
  by (auto simp add: handleRequest_def reqLat_def reqLon_def js_or_def falsy_def Let_def)

theorem zero_coordinate_dropped_witness:
  "reqLat \<lparr>ptype = ''RIDE_REQUEST'', orderId = ''o1'',
           pickup = Some \<lparr>latitude = 0, longitude = 5\<rparr>,
           deliveryLocation = Some \<lparr>latitude = 0, longitude = 7\<rparr>\<rparr> = Some 0
   \<and> handleRequest exact_runtime 50000 ''cust''
        \<lparr>ptype = ''RIDE_REQUEST'', orderId = ''o1'',
         pickup = Some \<lparr>latitude = 0, longitude = 5\<rparr>,
         deliveryLocation = Some \<lparr>latitude = 0, longitude = 7\<rparr>\<rparr> (ex_state [])
       = (ex_state [], [])
   \<and> reqLat \<lparr>ptype = ''RIDE_REQUEST'', orderId = ''o1'',
           pickup = Some \<lparr>latitude = 0, longitude = 5\<rparr>,
           deliveryLocation = Some \<lparr>latitude = 3, longitude = 4\<rparr>\<rparr> = Some 3
   \<and> handleRequest exact_runtime 50000 ''cust''
        \<lparr>ptype = ''RIDE_REQUEST'', orderId = ''o1'',
         pickup = Some \<lparr>latitude = 0, longitude = 5\<rparr>,
         deliveryLocation = None\<rparr> (ex_state [])
       = (ex_state [], [])"
proof -
  have a: "reqLat \<lparr>ptype = ''RIDE_REQUEST'', orderId = ''o1'',
           pickup = Some \<lparr>latitude = 0, longitude = 5\<rparr>,
           deliveryLocation = Some \<lparr>latitude = 0, longitude = 7\<rparr>\<rparr> = Some 0"
    by (simp add: reqLat_def js_or_def falsy_def)
  show ?thesis
    using a
      zero_coordinate_dropped [of "\<lparr>ptype = ''RIDE_REQUEST'', orderId = ''o1'',
           pickup = Some \<lparr>latitude = 0, longitude = 5\<rparr>,
           deliveryLocation = Some \<lparr>latitude = 0, longitude = 7\<rparr>\<rparr>"
           exact_runtime 50000 "''cust''" "ex_state []"]
      zero_coordinate_dropped [of "\<lparr>ptype = ''RIDE_REQUEST'', orderId = ''o1'',
           pickup = Some \<lparr>latitude = 0, longitude = 5\<rparr>,
           deliveryLocation = Some \<lparr>latitude = 3, longitude = 4\<rparr>\<rparr>"
           exact_runtime 50000 "''cust''" "ex_state []"]
      zero_coordinate_dropped [of "\<lparr>ptype = ''RIDE_REQUEST'', orderId = ''o1'',
           pickup = Some \<lparr>latitude = 0, longitude = 5\<rparr>,
           deliveryLocation = None\<rparr>"
           exact_runtime 50000 "''cust''" "ex_state []"]
    by simp
qed

text \<open>
  C7. For a request whose resolved origin coordinates are both present and
  non-zero and whose candidate list is empty, the state (and so the request
  store) is unchanged and exactly one message is sent: \<open>NO_DRIVERS_AVAILABLE\<close>
  with the order id, to the requester.
\<close>

theorem no_candidates_notifies_requester:
  assumes "reqLat payload = Some lat" and "lat \<noteq> 0"
    and "reqLon payload = Some lon" and "lon \<noteq> 0"
    and "computeCandidates M lat lon
           (if ptype payload = ''DELIVERY_REQUEST'' then LIVREURS else DRIVERS)
           (drivers st) = []"
  shows "handleRequest M now senderDid payload st
           = (st, [(senderDid, NO_DRIVERS_AVAILABLE (orderId payload))])"
  using assms by (simp add: handleRequest_def falsy_def Let_def)

theorem no_candidates_notifies_requester_witness:
  "reqLat ((ex_payload ''o1'')\<lparr>ptype := ''DELIVERY_REQUEST''\<rparr>) = Some 1
   \<and> reqLon ((ex_payload ''o1'')\<lparr>ptype := ''DELIVERY_REQUEST''\<rparr>) = Some 1
   \<and> computeCandidates exact_runtime 1 1 LIVREURS (drivers (ex_state [])) = []
   \<and> handleRequest exact_runtime 50000 ''cust'' ((ex_payload ''o1'')\<lparr>ptype := ''DELIVERY_REQUEST''\<rparr>)
        (ex_state [])
     = (ex_state [], [(''cust'', NO_DRIVERS_AVAILABLE ''o1'')])"
proof -
  have a: "reqLat ((ex_payload ''o1'')\<lparr>ptype := ''DELIVERY_REQUEST''\<rparr>) = Some 1"
    and b: "reqLon ((ex_payload ''o1'')\<lparr>ptype := ''DELIVERY_REQUEST''\<rparr>) = Some 1"
    by (simp_all add: reqLat_def reqLon_def ex_payload_def js_or_def falsy_def)
  have c: "computeCandidates exact_runtime 1 1 LIVREURS (drivers (ex_state [])) = []"
    by (simp add: computeCandidates_def ex_drivers_def ex_driver_def candidateOf_def
          List.map_filter_simps exact_runtime_def exact_sort_def)
  have c': "computeCandidates exact_runtime 1 1
      (if ptype ((ex_payload ''o1'')\<lparr>ptype := ''DELIVERY_REQUEST''\<rparr>) = ''DELIVERY_REQUEST''
       then LIVREURS else DRIVERS) (drivers (ex_state [])) = []"
    using c by simp
  have "handleRequest exact_runtime 50000 ''cust'' ((ex_payload ''o1'')\<lparr>ptype := ''DELIVERY_REQUEST''\<rparr>)
          (ex_state [])
     = (ex_state [], [(''cust'', NO_DRIVERS_AVAILABLE ''o1'')])"
    using no_candidates_notifies_requester [OF a _ b _ c', of 50000 "''cust''"]
    by (simp add: ex_payload_def)
  with a b c show ?thesis by blast
qed

text \<open>
  C1 as stated fails. The store holds request \<open>o1\<close>, assigned, with cursor 1 and
  \<open>c1\<close> notified. A second creation call with the id \<open>o1\<close> sends nothing and
  leaves a new pending request with cursor 0, no notified worker and recomputed
  candidates in its place.
\<close>

theorem duplicate_create_counterexample:
  "map_of (activeRequests (ex_state [(''o1'', ex_request ASSIGNED 1 [''c1''] 40000)])) ''o1''
     = Some (ex_request ASSIGNED 1 [''c1''] 40000)
   \<and> handleRequest exact_runtime 50000 ''cust'' (ex_payload ''o1'')
        (ex_state [(''o1'', ex_request ASSIGNED 1 [''c1''] 40000)])
     = (ex_state
          [(''o1'',
            \<lparr>r_id = ''o1'', r_type = RIDE, r_status = PENDING, customerDid = ''cust'',
             candidates = [\<lparr>did = ''c1'', distance = Num 0\<rparr>, \<lparr>did = ''c3'', distance = Num 0\<rparr>],
             nextCandidateIndex = 0, notifiedDrivers = [],
             data = ex_payload ''o1'', timestamp = 50000, lastNotificationTime = 0\<rparr>)],
        [])"
  by (simp add: handleRequest_def Let_def ex_reqLat falsy_def ex_computeCandidates)
     (simp add: ex_state_def ex_payload_def)

text \<open>
  C1, amended. For a request id already present in the store, a second creation
  call with that id, with resolved origin coordinates both present and non-zero
  and a non-empty candidate list, does not fail: it sends nothing, and the
  request stored under the id afterwards is a newly created one (status
  \<open>PENDING\<close>, cursor 0, no notified worker, last offer time 0, the candidates
  computed by this call).
\<close>

theorem duplicate_create_overwrites:
  assumes "map_of (activeRequests st) (orderId payload) = Some r"
    and "reqLat payload = Some lat" and "lat \<noteq> 0"
    and "reqLon payload = Some lon" and "lon \<noteq> 0"
    and "computeCandidates M lat lon
           (if ptype payload = ''DELIVERY_REQUEST'' then LIVREURS else DRIVERS)
           (drivers st) \<noteq> []"
  shows "snd (handleRequest M now senderDid payload st) = []
       \<and> map_of (activeRequests (fst (handleRequest M now senderDid payload st))) (orderId payload)
           = Some \<lparr>r_id = orderId payload,
                   r_type = (if ptype payload = ''DELIVERY_REQUEST'' then DELIVERY else RIDE),
                   r_status = PENDING,
                   customerDid = senderDid,
                   candidates = computeCandidates M lat lon
                     (if ptype payload = ''DELIVERY_REQUEST'' then LIVREURS else DRIVERS)
                     (drivers st),
                   nextCandidateIndex = 0,
                   notifiedDrivers = [],
                   data = payload,
                   timestamp = now,
                   lastNotificationTime = 0\<rparr>"
  using assms by (simp add: handleRequest_def falsy_def Let_def update_conv')

theorem duplicate_create_overwrites_witness:
  "map_of (activeRequests (ex_state [(''o1'', ex_request PENDING 1 [''c1''] 40000)]))
       (orderId (ex_payload ''o1''))
     = Some (ex_request PENDING 1 [''c1''] 40000)
   \<and> map_of (activeRequests (fst (handleRequest exact_runtime 50000 ''cust'' (ex_payload ''o1'')
        (ex_state [(''o1'', ex_request PENDING 1 [''c1''] 40000)])))) ''o1''
     = Some \<lparr>r_id = ''o1'', r_type = RIDE, r_status = PENDING, customerDid = ''cust'',
             candidates = [\<lparr>did = ''c1'', distance = Num 0\<rparr>, \<lparr>did = ''c3'', distance = Num 0\<rparr>],
             nextCandidateIndex = 0, notifiedDrivers = [],
             data = ex_payload ''o1'', timestamp = 50000, lastNotificationTime = 0\<rparr>"
proof -
  have h: "map_of (activeRequests (ex_state [(''o1'', ex_request PENDING 1 [''c1''] 40000)]))
             (orderId (ex_payload ''o1'')) = Some (ex_request PENDING 1 [''c1''] 40000)"
    by (simp add: ex_payload_def)
  have c: "computeCandidates exact_runtime 1 1
             (if ptype (ex_payload ''o1'') = ''DELIVERY_REQUEST'' then LIVREURS else DRIVERS)
             (drivers (ex_state [(''o1'', ex_request PENDING 1 [''c1''] 40000)])) \<noteq> []"
    by (simp add: ex_payload_def ex_computeCandidates)
  show ?thesis
    using h duplicate_create_overwrites
              [OF h ex_reqLat(1) _ ex_reqLat(2) _ c, of 50000 "''cust''"]
    by (simp add: ex_computeCandidates ex_payload_def)
qed

section \<open>Acceptance\<close>

text \<open>
  C2 as stated fails. An accept for an id that is not in the store sends
  nothing: no message reaches the accepting worker.
\<close>

theorem unknown_accept_counterexample:
  "map_of (activeRequests (ex_state [])) ''nonexistent-id'' = None
   \<and> snd (handleAccept ''c1'' \<lparr>acc_orderId = ''nonexistent-id''\<rparr> (ex_state [])) = []"
  by (simp add: handleAccept_def)

text \<open>
  C2, amended. For every accept event whose request id is not in the request
  store, nothing is sent to anyone (the source only logs the event) and the
  state, with every stored request, is unchanged.
\<close>

theorem unknown_accept_silent:
  assumes "map_of (activeRequests st) (acc_orderId payload) = None"
  shows "handleAccept senderDid payload st = (st, [])"
  using assms by (simp add: handleAccept_def)

theorem unknown_accept_silent_witness:
  "map_of (activeRequests (ex_state [(''o1'', ex_request PENDING 1 [''c1''] 40000)]))
      (acc_orderId \<lparr>acc_orderId = ''o9''\<rparr>) = None
   \<and> handleAccept ''c1'' \<lparr>acc_orderId = ''o9''\<rparr>
        (ex_state [(''o1'', ex_request PENDING 1 [''c1''] 40000)])
     = (ex_state [(''o1'', ex_request PENDING 1 [''c1''] 40000)], [])"
proof -
  have h: "map_of (activeRequests (ex_state [(''o1'', ex_request PENDING 1 [''c1''] 40000)]))
      (acc_orderId \<lparr>acc_orderId = ''o9''\<rparr>) = None"
    by simp
  show ?thesis
    using h unknown_accept_silent [OF h, of "''c1''"] by simp
qed

text \<open>
  C3. Let request \<open>rid\<close> be stored with status \<open>PENDING\<close> and notified workers
  \<open>[c1, c3]\<close>, two different workers. The accept of \<open>c3\<close> changes the state only
  by setting the status of the stored request to \<open>ASSIGNED\<close>, and sends, in this
  order, \<open>ORDER_ASSIGNED\<close> to the requester, \<open>ORDER_TAKEN_BY_OTHER\<close> to \<open>c1\<close> and
  \<open>ORDER_CONFIRMED\<close> to \<open>c3\<close>. The accept of \<open>c1\<close> that follows sends
  \<open>ORDER_ALREADY_TAKEN\<close> to \<open>c1\<close> and leaves the state as it is.
\<close>

theorem accept_then_late_accept:
  assumes "map_of (activeRequests st) rid = Some r"
    and "r_status r = PENDING"
    and "notifiedDrivers r = [c1, c3]"
    and "c1 \<noteq> c3"
  shows "fst (handleAccept c3 \<lparr>acc_orderId = rid\<rparr> st)
           = st\<lparr>activeRequests :=
                 AList.update rid (r\<lparr>r_status := ASSIGNED\<rparr>) (activeRequests st)\<rparr>
         \<and> map_of (activeRequests (fst (handleAccept c3 \<lparr>acc_orderId = rid\<rparr> st))) rid
             = Some (r\<lparr>r_status := ASSIGNED\<rparr>)
         \<and> snd (handleAccept c3 \<lparr>acc_orderId = rid\<rparr> st)
             = [(customerDid r,
                 ORDER_ASSIGNED rid c3
                   (case map_of (drivers st) c3 of None \<Rightarrow> None | Some d \<Rightarrow> location d)),
                (c1, ORDER_TAKEN_BY_OTHER rid),
                (c3, ORDER_CONFIRMED rid (customerDid r) (data r))]
         \<and> handleAccept c1 \<lparr>acc_orderId = rid\<rparr>
               (fst (handleAccept c3 \<lparr>acc_orderId = rid\<rparr> st))
             = (fst (handleAccept c3 \<lparr>acc_orderId = rid\<rparr> st),
                [(c1, ORDER_ALREADY_TAKEN rid)])"
  using assms by (simp add: handleAccept_def Let_def update_conv')

theorem accept_then_late_accept_witness:
  "map_of (activeRequests (ex_state [(''o1'', ex_request PENDING 3 [''c1'', ''c3''] 70000)])) ''o1''
     = Some (ex_request PENDING 3 [''c1'', ''c3''] 70000)
   \<and> ''c1'' \<noteq> ''c3''
   \<and> fst (handleAccept ''c3'' \<lparr>acc_orderId = ''o1''\<rparr>
        (ex_state [(''o1'', ex_request PENDING 3 [''c1'', ''c3''] 70000)]))
     = ex_state [(''o1'', ex_request ASSIGNED 3 [''c1'', ''c3''] 70000)]
   \<and> snd (handleAccept ''c3'' \<lparr>acc_orderId = ''o1''\<rparr>
        (ex_state [(''o1'', ex_request PENDING 3 [''c1'', ''c3''] 70000)]))
     = [(''cust'', ORDER_ASSIGNED ''o1'' ''c3'' (Some \<lparr>latitude = 1, longitude = 1\<rparr>)),
        (''c1'', ORDER_TAKEN_BY_OTHER ''o1''),
        (''c3'', ORDER_CONFIRMED ''o1'' ''cust'' (ex_payload ''o1''))]
   \<and> handleAccept ''c1'' \<lparr>acc_orderId = ''o1''\<rparr>
        (ex_state [(''o1'', ex_request ASSIGNED 3 [''c1'', ''c3''] 70000)])
     = (ex_state [(''o1'', ex_request ASSIGNED 3 [''c1'', ''c3''] 70000)],
        [(''c1'', ORDER_ALREADY_TAKEN ''o1'')])"
proof -
  have h1: "map_of (activeRequests (ex_state [(''o1'', ex_request PENDING 3 [''c1'', ''c3''] 70000)]))
              ''o1''
     = Some (ex_request PENDING 3 [''c1'', ''c3''] 70000)"
    by simp
  have h2: "r_status (ex_request PENDING 3 [''c1'', ''c3''] 70000) = PENDING"
    and h3: "notifiedDrivers (ex_request PENDING 3 [''c1'', ''c3''] 70000) = [''c1'', ''c3'']"
    by (simp_all add: ex_request_def)
  have h4: "''c1'' \<noteq> ''c3''" by simp
  note t = accept_then_late_accept [OF h1 h2 h3 h4]
  have e: "fst (handleAccept ''c3'' \<lparr>acc_orderId = ''o1''\<rparr>
        (ex_state [(''o1'', ex_request PENDING 3 [''c1'', ''c3''] 70000)]))
     = ex_state [(''o1'', ex_request ASSIGNED 3 [''c1'', ''c3''] 70000)]"
    by (simp only: t [THEN conjunct1]) (simp add: ex_state_def ex_request_def)
  have o: "snd (handleAccept ''c3'' \<lparr>acc_orderId = ''o1''\<rparr>
        (ex_state [(''o1'', ex_request PENDING 3 [''c1'', ''c3''] 70000)]))
     = [(''cust'', ORDER_ASSIGNED ''o1'' ''c3'' (Some \<lparr>latitude = 1, longitude = 1\<rparr>)),
        (''c1'', ORDER_TAKEN_BY_OTHER ''o1''),
        (''c3'', ORDER_CONFIRMED ''o1'' ''cust'' (ex_payload ''o1''))]"
    by (simp only: t [THEN conjunct2, THEN conjunct2, THEN conjunct1])
       (simp add: ex_state_def ex_request_def ex_drivers_def ex_driver_def)
  have s: "handleAccept ''c1'' \<lparr>acc_orderId = ''o1''\<rparr>
        (ex_state [(''o1'', ex_request ASSIGNED 3 [''c1'', ''c3''] 70000)])
     = (ex_state [(''o1'', ex_request ASSIGNED 3 [''c1'', ''c3''] 70000)],
        [(''c1'', ORDER_ALREADY_TAKEN ''o1'')])"
    using t [THEN conjunct2, THEN conjunct2, THEN conjunct2] by (simp only: e)
  show ?thesis
    by (intro conjI) (fact h1 h4 e o s)+
qed

section \<open>The scheduler tick\<close>

lemma processEntries_eq:
  "processEntries now ds xs =
     (map (\<lambda>(k, r). (k, fst (processRequest now ds r))) xs,
      concat (map (\<lambda>(k, r). snd (processRequest now ds r)) xs))"
  by (induction xs) (auto simp add: split_def Let_def)

lemma map_of_processEntries:
  "map_of (fst (processEntries now ds xs)) k
     = map_option (\<lambda>r. fst (processRequest now ds r)) (map_of xs k)"
  by (simp add: processEntries_eq map_of_map)

lemma activeRequests_processRequests:
  "map_of (activeRequests (fst (processRequests now st))) k
     = map_option (\<lambda>r. fst (processRequest now (drivers st) r)) (map_of (activeRequests st) k)"
  by (simp add: processRequests_def split_def Let_def map_of_processEntries)

lemma processRequest_skip:
  assumes "r_status r = PENDING"
    and "now - lastNotificationTime r \<ge> DISPATCH_INTERVAL_MS"
    and "nextCandidateIndex r < length (candidates r)"
    and "\<forall>d. map_of ds (did (candidates r ! nextCandidateIndex r)) = Some d
             \<longrightarrow> d_status d \<noteq> AVAILABLE"
  shows "processRequest now ds r = (r\<lparr>nextCandidateIndex := nextCandidateIndex r + 1\<rparr>, [])"
  using assms by (simp add: processRequest_def Let_def split: option.splits)

lemma processRequest_cursor:
  "nextCandidateIndex r \<le> nextCandidateIndex (fst (processRequest now ds r))
   \<and> nextCandidateIndex (fst (processRequest now ds r)) \<le> nextCandidateIndex r + 1"
  by (simp add: processRequest_def Let_def split: option.splits)

text \<open>
  C4. Let \<open>r\<close> be stored under \<open>k\<close>, \<open>PENDING\<close>, with its offer interval elapsed at
  \<open>now\<close> and its cursor on a candidate whose worker has no registry record or a
  record that is not \<open>AVAILABLE\<close>. Then the tick sends nothing for \<open>r\<close> and
  stores \<open>r\<close> with the cursor incremented by one and every other field,
  \<open>lastNotificationTime\<close> included, as before. For every stored request, the
  cursor after a tick is the cursor before or one more. What a tick sends is
  what is sent for each stored request, in store order.
\<close>

theorem tick_skips_unavailable:
  "(map_of (activeRequests st) k = Some r
      \<and> r_status r = PENDING
      \<and> now - lastNotificationTime r \<ge> DISPATCH_INTERVAL_MS
      \<and> nextCandidateIndex r < length (candidates r)
      \<and> (\<forall>d. map_of (drivers st) (did (candidates r ! nextCandidateIndex r)) = Some d
             \<longrightarrow> d_status d \<noteq> AVAILABLE)
    \<longrightarrow> processRequest now (drivers st) r
          = (r\<lparr>nextCandidateIndex := nextCandidateIndex r + 1\<rparr>, [])
        \<and> map_of (activeRequests (fst (processRequests now st))) k
          = Some (r\<lparr>nextCandidateIndex := nextCandidateIndex r + 1\<rparr>))
   \<and> (map_of (activeRequests st) k = Some r
    \<longrightarrow> (\<exists>r'. map_of (activeRequests (fst (processRequests now st))) k = Some r'
              \<and> nextCandidateIndex r \<le> nextCandidateIndex r'
              \<and> nextCandidateIndex r' \<le> nextCandidateIndex r + 1))
   \<and> snd (processRequests now st)
        = concat (map (\<lambda>(k, r). snd (processRequest now (drivers st) r)) (activeRequests st))"
proof (intro conjI impI)
  assume h: "map_of (activeRequests st) k = Some r
      \<and> r_status r = PENDING
      \<and> now - lastNotificationTime r \<ge> DISPATCH_INTERVAL_MS
      \<and> nextCandidateIndex r < length (candidates r)
      \<and> (\<forall>d. map_of (drivers st) (did (candidates r ! nextCandidateIndex r)) = Some d
             \<longrightarrow> d_status d \<noteq> AVAILABLE)"
  then show skip: "processRequest now (drivers st) r
          = (r\<lparr>nextCandidateIndex := nextCandidateIndex r + 1\<rparr>, [])"
    using processRequest_skip [of r now "drivers st"] by blast
  from h skip show "map_of (activeRequests (fst (processRequests now st))) k
          = Some (r\<lparr>nextCandidateIndex := nextCandidateIndex r + 1\<rparr>)"
    by (simp add: activeRequests_processRequests)
next
  assume "map_of (activeRequests st) k = Some r"
  then show "\<exists>r'. map_of (activeRequests (fst (processRequests now st))) k = Some r'
              \<and> nextCandidateIndex r \<le> nextCandidateIndex r'
              \<and> nextCandidateIndex r' \<le> nextCandidateIndex r + 1"
    using processRequest_cursor [of r now "drivers st"]
    by (simp add: activeRequests_processRequests)
next
  show "snd (processRequests now st)
        = concat (map (\<lambda>(k, r). snd (processRequest now (drivers st) r)) (activeRequests st))"
    by (simp add: processRequests_def split_def Let_def processEntries_eq)
qed

theorem tick_skips_unavailable_witness:
  "map_of (activeRequests (ex_state [(''o1'', ex_request PENDING 1 [''c1''] 40000)])) ''o1''
     = Some (ex_request PENDING 1 [''c1''] 40000)
   \<and> r_status (ex_request PENDING 1 [''c1''] 40000) = PENDING
   \<and> 70000 - lastNotificationTime (ex_request PENDING 1 [''c1''] 40000) \<ge> DISPATCH_INTERVAL_MS
   \<and> map_of ex_drivers (did (candidates (ex_request PENDING 1 [''c1''] 40000) ! 1))
       = Some (ex_driver ''c2'' UNAVAILABLE)
   \<and> processRequest 70000 ex_drivers (ex_request PENDING 1 [''c1''] 40000)
       = (ex_request PENDING 2 [''c1''] 40000, [])
   \<and> map_of (activeRequests (fst (processRequests 70000
        (ex_state [(''o1'', ex_request PENDING 1 [''c1''] 40000)])))) ''o1''
     = Some (ex_request PENDING 2 [''c1''] 40000)"
proof -
  have h: "map_of (activeRequests (ex_state [(''o1'', ex_request PENDING 1 [''c1''] 40000)])) ''o1''
     = Some (ex_request PENDING 1 [''c1''] 40000)
   \<and> r_status (ex_request PENDING 1 [''c1''] 40000) = PENDING
   \<and> 70000 - lastNotificationTime (ex_request PENDING 1 [''c1''] 40000) \<ge> DISPATCH_INTERVAL_MS
   \<and> nextCandidateIndex (ex_request PENDING 1 [''c1''] 40000)
        < length (candidates (ex_request PENDING 1 [''c1''] 40000))
   \<and> (\<forall>d. map_of (drivers (ex_state [(''o1'', ex_request PENDING 1 [''c1''] 40000)]))
              (did (candidates (ex_request PENDING 1 [''c1''] 40000)
                 ! nextCandidateIndex (ex_request PENDING 1 [''c1''] 40000))) = Some d
             \<longrightarrow> d_status d \<noteq> AVAILABLE)"
    by (simp add: ex_request_def ex_candidates_def ex_drivers_def ex_driver_def
          DISPATCH_INTERVAL_MS_def)
  have m: "map_of ex_drivers (did (candidates (ex_request PENDING 1 [''c1''] 40000) ! 1))
       = Some (ex_driver ''c2'' UNAVAILABLE)"
    by (simp add: ex_request_def ex_candidates_def ex_drivers_def)
  have u: "(ex_request PENDING 1 [''c1''] 40000)\<lparr>nextCandidateIndex :=
             nextCandidateIndex (ex_request PENDING 1 [''c1''] 40000) + 1\<rparr>
           = ex_request PENDING 2 [''c1''] 40000"
    by (simp add: ex_request_def)
  show ?thesis
    using h m u
      tick_skips_unavailable
        [of "ex_state [(''o1'', ex_request PENDING 1 [''c1''] 40000)]" "''o1''"
            "ex_request PENDING 1 [''c1''] 40000" 70000]
    by simp
qed

section \<open>Preservation of the request properties\<close>

lemma processRequest_bounds:
  assumes "req_bounds r"
  shows "req_bounds (fst (processRequest now ds r))"
proof -
  have "did (candidates r ! nextCandidateIndex r)
          \<in> did ` set (take (Suc (nextCandidateIndex r)) (candidates r))"
    if "nextCandidateIndex r < length (candidates r)"
    using that by (simp add: take_Suc_conv_app_nth)
  moreover have "did ` set (take (nextCandidateIndex r) (candidates r))
          \<subseteq> did ` set (take (Suc (nextCandidateIndex r)) (candidates r))"
    by (intro image_mono set_take_subset_set_take) simp
  ultimately show ?thesis
    using assms
    by (auto simp add: processRequest_def req_bounds_def Let_def split: option.splits)
qed

lemma processRequest_step: "req_step r (fst (processRequest now ds r))"
  by (simp add: processRequest_def req_step_def Let_def DISPATCH_INTERVAL_MS_def
        split: option.splits)

lemma processRequest_inv:
  assumes "req_inv M r"
  shows "req_inv M (fst (processRequest now ds r))"
  using assms processRequest_bounds [of r now ds] processRequest_step [of r now ds]
  by (simp add: req_inv_def req_step_def)

lemma tick_preserves:
  assumes "map_of (activeRequests st) k = Some r" and "req_inv M r"
  shows "\<exists>r'. map_of (activeRequests (fst (processRequests now st))) k = Some r'
              \<and> req_inv M r' \<and> req_step r r'"
  using assms processRequest_inv [of M r now "drivers st"]
    processRequest_step [of r now "drivers st"]
  by (simp add: activeRequests_processRequests)

lemma tick_no_new:
  assumes "map_of (activeRequests st) k = None"
  shows "map_of (activeRequests (fst (processRequests now st))) k = None"
  using assms by (simp add: activeRequests_processRequests)

lemma accept_preserves:
  assumes "map_of (activeRequests st) k = Some r" and "req_inv M r"
  shows "\<exists>r'. map_of (activeRequests (fst (handleAccept w p st))) k = Some r'
              \<and> req_inv M r' \<and> req_step r r'"
  using assms
  by (auto simp add: handleAccept_def Let_def update_conv' req_inv_def req_bounds_def
        req_step_def split: option.splits)

lemma accept_no_new:
  assumes "map_of (activeRequests st) k = None"
  shows "map_of (activeRequests (fst (handleAccept w p st))) k = None"
  using assms
  by (auto simp add: handleAccept_def Let_def update_conv' split: option.splits)

lemma create_others:
  assumes "k \<noteq> orderId p"
  shows "map_of (activeRequests (fst (handleRequest M now s p st))) k
           = map_of (activeRequests st) k"
  using assms
  by (auto simp add: handleRequest_def Let_def update_conv' split: option.splits)

lemma create_inbound:
  assumes "map_of (activeRequests (fst (handleRequest M now s p st))) (orderId p) = Some r'"
  shows "map_of (activeRequests st) (orderId p) = Some r'
         \<or> (r_status r' = PENDING \<and> nextCandidateIndex r' = 0 \<and> notifiedDrivers r' = []
             \<and> lastNotificationTime r' = 0 \<and> candidates r' \<noteq> [] \<and> req_bounds r')"
  using assms
  by (auto simp add: handleRequest_def Let_def update_conv' req_bounds_def
        split: option.splits if_splits)

text \<open>
  C5 as stated fails for request creation. The store holds request \<open>o1\<close>,
  assigned, with cursor 1 and last offer time 40000, and the request has the
  properties of a stored request. After a creation call with the id \<open>o1\<close> the
  request stored under \<open>o1\<close> is \<open>PENDING\<close>, its cursor and its last offer time are
  smaller, and its candidates are other ones.
\<close>

theorem create_resets_request_counterexample:
  "map_of (activeRequests (ex_state [(''o1'', ex_request ASSIGNED 1 [''c1''] 40000)])) ''o1''
     = Some (ex_request ASSIGNED 1 [''c1''] 40000)
   \<and> req_inv exact_runtime (ex_request ASSIGNED 1 [''c1''] 40000)
   \<and> r_status (ex_request ASSIGNED 1 [''c1''] 40000) = ASSIGNED
   \<and> r_status (the (map_of (activeRequests (fst (handleRequest exact_runtime 50000 ''cust''
          (ex_payload ''o1'') (ex_state [(''o1'', ex_request ASSIGNED 1 [''c1''] 40000)]))))
          ''o1'')) = PENDING
   \<and> nextCandidateIndex (the (map_of (activeRequests (fst (handleRequest exact_runtime 50000
          ''cust'' (ex_payload ''o1'')
          (ex_state [(''o1'', ex_request ASSIGNED 1 [''c1''] 40000)])))) ''o1''))
       < nextCandidateIndex (ex_request ASSIGNED 1 [''c1''] 40000)
   \<and> lastNotificationTime (the (map_of (activeRequests (fst (handleRequest exact_runtime 50000
          ''cust'' (ex_payload ''o1'')
          (ex_state [(''o1'', ex_request ASSIGNED 1 [''c1''] 40000)])))) ''o1''))
       < lastNotificationTime (ex_request ASSIGNED 1 [''c1''] 40000)
   \<and> candidates (the (map_of (activeRequests (fst (handleRequest exact_runtime 50000
          ''cust'' (ex_payload ''o1'')
          (ex_state [(''o1'', ex_request ASSIGNED 1 [''c1''] 40000)])))) ''o1''))
       \<noteq> candidates (ex_request ASSIGNED 1 [''c1''] 40000)
   \<and> \<not> req_step (ex_request ASSIGNED 1 [''c1''] 40000)
         (the (map_of (activeRequests (fst (handleRequest exact_runtime 50000 ''cust''
          (ex_payload ''o1'') (ex_state [(''o1'', ex_request ASSIGNED 1 [''c1''] 40000)]))))
          ''o1''))"
proof -
  let ?st = "ex_state [(''o1'', ex_request ASSIGNED 1 [''c1''] 40000)]"
  let ?new = "\<lparr>r_id = ''o1'', r_type = RIDE, r_status = PENDING, customerDid = ''cust'',
                candidates = [\<lparr>did = ''c1'', distance = Num 0\<rparr>,
                              \<lparr>did = ''c3'', distance = Num 0\<rparr>],
                nextCandidateIndex = 0, notifiedDrivers = [],
                data = ex_payload ''o1'', timestamp = 50000, lastNotificationTime = 0\<rparr>"
  have "activeRequests (fst (handleRequest exact_runtime 50000 ''cust'' (ex_payload ''o1'') ?st))
          = [(''o1'', ?new)]"
    by (simp add: handleRequest_def Let_def ex_reqLat falsy_def ex_computeCandidates)
       (simp add: ex_payload_def)
  then have m: "the (map_of (activeRequests
                  (fst (handleRequest exact_runtime 50000 ''cust'' (ex_payload ''o1'') ?st)))
                  ''o1'') = ?new"
    by simp
  have i: "req_inv exact_runtime (ex_request ASSIGNED 1 [''c1''] 40000)"
    by (rule ex_req_inv)
  show ?thesis
    unfolding m using i
    by (simp add: req_step_def ex_request_def ex_candidates_def)
qed

text \<open>
  C5, amended. A scheduler tick and an accept store no request under an id that
  had none, and for a request \<open>r\<close> stored under \<open>k\<close> with its candidates in
  ascending distance, its cursor at most the number of candidates and its
  notified workers among the workers of the candidates before the cursor, the
  request stored under \<open>k\<close> afterwards has these three properties again, the
  same candidates, a cursor and a last offer time not smaller than before, and
  is \<open>ASSIGNED\<close> if \<open>r\<close> was. A request creation leaves what is stored under
  every id other than the inbound one as it is. The request stored under the
  inbound id after a creation is the one stored there before, or it is a new
  one, whether or not a request was stored there before: \<open>PENDING\<close>, with
  cursor 0, last offer time 0, no notified worker and a non-empty candidate
  list, so with its cursor and its notified workers within bounds. (The order of
  a newly computed candidate list is not part of this statement.)
\<close>

theorem operations_preserve_request_properties:
  "(map_of (activeRequests st) k = Some r \<and> req_inv M r \<longrightarrow>
      (\<exists>r'. map_of (activeRequests (fst (processRequests now st))) k = Some r'
            \<and> req_inv M r' \<and> req_step r r')
      \<and> (\<exists>r'. map_of (activeRequests (fst (handleAccept w ap st))) k = Some r'
            \<and> req_inv M r' \<and> req_step r r'))
   \<and> (map_of (activeRequests st) k = None \<longrightarrow>
        map_of (activeRequests (fst (processRequests now st))) k = None
        \<and> map_of (activeRequests (fst (handleAccept w ap st))) k = None)
   \<and> (k \<noteq> orderId p \<longrightarrow>
        map_of (activeRequests (fst (handleRequest M now' s p st))) k
          = map_of (activeRequests st) k)
   \<and> (map_of (activeRequests (fst (handleRequest M now' s p st))) (orderId p) = Some r'' \<longrightarrow>
        map_of (activeRequests st) (orderId p) = Some r''
        \<or> (r_status r'' = PENDING \<and> nextCandidateIndex r'' = 0 \<and> notifiedDrivers r'' = []
            \<and> lastNotificationTime r'' = 0 \<and> candidates r'' \<noteq> [] \<and> req_bounds r''))"
proof (intro conjI impI)
  assume h: "map_of (activeRequests st) k = Some r \<and> req_inv M r"
  then show "\<exists>r'. map_of (activeRequests (fst (processRequests now st))) k = Some r'
            \<and> req_inv M r' \<and> req_step r r'"
    using tick_preserves [of st k r M now] by blast
  from h show "\<exists>r'. map_of (activeRequests (fst (handleAccept w ap st))) k = Some r'
            \<and> req_inv M r' \<and> req_step r r'"
    using accept_preserves [of st k r M w ap] by blast
next
  assume n: "map_of (activeRequests st) k = None"
  then show "map_of (activeRequests (fst (processRequests now st))) k = None"
    by (rule tick_no_new)
  from n show "map_of (activeRequests (fst (handleAccept w ap st))) k = None"
    by (rule accept_no_new)
next
  assume "k \<noteq> orderId p"
  then show "map_of (activeRequests (fst (handleRequest M now' s p st))) k
          = map_of (activeRequests st) k"
    by (rule create_others)
next
  assume "map_of (activeRequests (fst (handleRequest M now' s p st))) (orderId p) = Some r''"
  then show "map_of (activeRequests st) (orderId p) = Some r''
        \<or> (r_status r'' = PENDING \<and> nextCandidateIndex r'' = 0 \<and> notifiedDrivers r'' = []
            \<and> lastNotificationTime r'' = 0 \<and> candidates r'' \<noteq> [] \<and> req_bounds r'')"
    by (rule create_inbound)
qed

theorem operations_preserve_request_properties_witness:
  "map_of (activeRequests (ex_state [(''o1'', ex_request PENDING 0 [] 0)])) ''o1''
     = Some (ex_request PENDING 0 [] 0)
   \<and> req_inv exact_runtime (ex_request PENDING 0 [] 0)
   \<and> map_of (activeRequests (fst (processRequests 40000
          (ex_state [(''o1'', ex_request PENDING 0 [] 0)])))) ''o1''
       = Some (ex_request PENDING 1 [''c1''] 40000)
   \<and> req_inv exact_runtime (ex_request PENDING 1 [''c1''] 40000)
   \<and> req_step (ex_request PENDING 0 [] 0) (ex_request PENDING 1 [''c1''] 40000)
   \<and> (\<exists>r'. map_of (activeRequests (fst (handleAccept ''c1'' \<lparr>acc_orderId = ''o1''\<rparr>
          (ex_state [(''o1'', ex_request PENDING 0 [] 0)])))) ''o1'' = Some r'
         \<and> req_inv exact_runtime r' \<and> req_step (ex_request PENDING 0 [] 0) r')
   \<and> map_of (activeRequests (ex_state [(''o1'', ex_request PENDING 0 [] 0)])) ''o9'' = None
   \<and> map_of (activeRequests (fst (processRequests 40000
          (ex_state [(''o1'', ex_request PENDING 0 [] 0)])))) ''o9'' = None
   \<and> ''o1'' \<noteq> orderId (ex_payload ''o2'')
   \<and> map_of (activeRequests (fst (handleRequest exact_runtime 50000 ''cust'' (ex_payload ''o2'')
          (ex_state [(''o1'', ex_request PENDING 0 [] 0)])))) ''o1''
       = Some (ex_request PENDING 0 [] 0)
   \<and> map_of (activeRequests (fst (handleRequest exact_runtime 50000 ''cust'' (ex_payload ''o2'')
          (ex_state [(''o1'', ex_request PENDING 0 [] 0)])))) ''o2''
       = Some \<lparr>r_id = ''o2'', r_type = RIDE, r_status = PENDING, customerDid = ''cust'',
               candidates = [\<lparr>did = ''c1'', distance = Num 0\<rparr>,
                             \<lparr>did = ''c3'', distance = Num 0\<rparr>],
               nextCandidateIndex = 0, notifiedDrivers = [],
               data = ex_payload ''o2'', timestamp = 50000, lastNotificationTime = 0\<rparr>
   \<and> req_bounds \<lparr>r_id = ''o2'', r_type = RIDE, r_status = PENDING, customerDid = ''cust'',
               candidates = [\<lparr>did = ''c1'', distance = Num 0\<rparr>,
                             \<lparr>did = ''c3'', distance = Num 0\<rparr>],
               nextCandidateIndex = 0, notifiedDrivers = [],
               data = ex_payload ''o2'', timestamp = 50000, lastNotificationTime = 0\<rparr>
   \<and> map_of (activeRequests (ex_state [(''o1'', ex_request ASSIGNED 1 [''c1''] 40000)])) ''o1''
       = Some (ex_request ASSIGNED 1 [''c1''] 40000)
   \<and> (\<exists>r'. map_of (activeRequests (fst (handleAccept ''c3'' \<lparr>acc_orderId = ''o1''\<rparr>
          (ex_state [(''o1'', ex_request ASSIGNED 1 [''c1''] 40000)])))) ''o1'' = Some r'
         \<and> req_inv exact_runtime r' \<and> req_step (ex_request ASSIGNED 1 [''c1''] 40000) r')"
proof -
  let ?st = "ex_state [(''o1'', ex_request PENDING 0 [] 0)]"
  let ?new = "\<lparr>r_id = ''o2'', r_type = RIDE, r_status = PENDING, customerDid = ''cust'',
               candidates = [\<lparr>did = ''c1'', distance = Num 0\<rparr>,
                             \<lparr>did = ''c3'', distance = Num 0\<rparr>],
               nextCandidateIndex = 0, notifiedDrivers = [],
               data = ex_payload ''o2'', timestamp = 50000, lastNotificationTime = 0\<rparr>"
  have h1: "map_of (activeRequests ?st) ''o1'' = Some (ex_request PENDING 0 [] 0)"
    by simp
  have h2: "req_inv exact_runtime (ex_request PENDING 0 [] 0)"
    by (rule ex_req_inv)
  note t = operations_preserve_request_properties
             [of ?st "''o1''" "ex_request PENDING 0 [] 0" exact_runtime 40000 "''c1''"
                 "\<lparr>acc_orderId = ''o1''\<rparr>" "ex_payload ''o2''" 50000 "''cust''" ?new]
  have p: "map_of (activeRequests (fst (processRequests 40000 ?st))) ''o1''
       = Some (ex_request PENDING 1 [''c1''] 40000)"
    by (simp add: activeRequests_processRequests processRequest_def Let_def
          DISPATCH_INTERVAL_MS_def ex_request_def ex_candidates_def ex_drivers_def ex_driver_def)
  from t [THEN conjunct1] h1 h2 p
  have q: "req_inv exact_runtime (ex_request PENDING 1 [''c1''] 40000)
     \<and> req_step (ex_request PENDING 0 [] 0) (ex_request PENDING 1 [''c1''] 40000)"
    by simp
  from t [THEN conjunct1] h1 h2
  have a: "\<exists>r'. map_of (activeRequests (fst (handleAccept ''c1'' \<lparr>acc_orderId = ''o1''\<rparr> ?st)))
                  ''o1'' = Some r'
         \<and> req_inv exact_runtime r' \<and> req_step (ex_request PENDING 0 [] 0) r'"
    by blast
  note u = operations_preserve_request_properties
             [of ?st "''o9''" "ex_request PENDING 0 [] 0" exact_runtime 40000 "''c1''"
                 "\<lparr>acc_orderId = ''o1''\<rparr>" "ex_payload ''o2''" 50000 "''cust''" ?new]
  have n1: "map_of (activeRequests ?st) ''o9'' = None"
    by simp
  from u [THEN conjunct2, THEN conjunct1] n1
  have n2: "map_of (activeRequests (fst (processRequests 40000 ?st))) ''o9'' = None"
    by blast
  have d: "''o1'' \<noteq> orderId (ex_payload ''o2'')"
    by (simp add: ex_payload_def)
  from t [THEN conjunct2, THEN conjunct2, THEN conjunct1] d h1
  have c1: "map_of (activeRequests (fst (handleRequest exact_runtime 50000 ''cust''
              (ex_payload ''o2'') ?st))) ''o1'' = Some (ex_request PENDING 0 [] 0)"
    by simp
  have "activeRequests (fst (handleRequest exact_runtime 50000 ''cust'' (ex_payload ''o2'') ?st))
          = [(''o1'', ex_request PENDING 0 [] 0), (''o2'', ?new)]"
    by (simp add: handleRequest_def Let_def ex_reqLat falsy_def ex_computeCandidates)
       (simp add: ex_payload_def)
  then have c2: "map_of (activeRequests (fst (handleRequest exact_runtime 50000 ''cust''
              (ex_payload ''o2'') ?st))) ''o2'' = Some ?new"
    by simp
  have o: "orderId (ex_payload ''o2'') = ''o2''"
    by (simp add: ex_payload_def)
  have "map_of (activeRequests ?st) ''o2'' \<noteq> Some ?new"
    by simp
  with t [THEN conjunct2, THEN conjunct2, THEN conjunct2] c2 o
  have c3: "req_bounds ?new"
    by simp
  let ?st' = "ex_state [(''o1'', ex_request ASSIGNED 1 [''c1''] 40000)]"
  have g1: "map_of (activeRequests ?st') ''o1'' = Some (ex_request ASSIGNED 1 [''c1''] 40000)"
    by simp
  have g2: "req_inv exact_runtime (ex_request ASSIGNED 1 [''c1''] 40000)"
    by (rule ex_req_inv)
  note t' = operations_preserve_request_properties
              [of ?st' "''o1''" "ex_request ASSIGNED 1 [''c1''] 40000" exact_runtime 40000
                  "''c3''" "\<lparr>acc_orderId = ''o1''\<rparr>"]
  from t' [THEN conjunct1] g1 g2
  have a': "\<exists>r'. map_of (activeRequests (fst (handleAccept ''c3'' \<lparr>acc_orderId = ''o1''\<rparr> ?st')))
                  ''o1'' = Some r'
         \<and> req_inv exact_runtime r' \<and> req_step (ex_request ASSIGNED 1 [''c1''] 40000) r'"
    by blast
  show ?thesis
    using h1 h2 p q a n1 n2 d c1 c2 c3 g1 a' by blast
qed

end
